theory Spec2Isabelle
  imports Complex_Main "HOL-Library.Word"
begin

unbundle bit_operations_syntax

section \<open>The WebGL interface as the program uses it\<close>

text \<open>
  The program of \<^verbatim>\<open>src/main.ts\<close> is a straight line of calls into the browser: the DOM,
  the WebGL context, the console and the animation-frame scheduler. The model records every
  such call, in program order, as an event. What the browser answers is not decided by the
  program, so the answers are fields of the records \<open>gl_ctx\<close>, \<open>canvas\<close> and \<open>host\<close>, and
  every theorem holds for all of them.
\<close>

datatype shader_type = VERTEX_SHADER | FRAGMENT_SHADER

datatype shader = WebGLShader nat
datatype program = WebGLProgram nat
datatype buffer = WebGLBuffer nat

datatype pname = COMPILE_STATUS | LINK_STATUS
datatype target = ARRAY_BUFFER
datatype usage = STATIC_DRAW
datatype gl_type = FLOAT | UNSIGNED_BYTE
datatype draw_mode = TRIANGLES

text \<open>The two clear masks of the WebGL 1 interface, bit masks of a 32-bit bitfield.\<close>

definition COLOR_BUFFER_BIT :: "32 word" where
  "COLOR_BUFFER_BIT = 0x4000"

definition DEPTH_BUFFER_BIT :: "32 word" where
  "DEPTH_BUFFER_BIT = 0x100"

text \<open>
  Typed arrays. A \<open>Float32Array\<close> element is modelled by the rational it denotes (the
  literals of the program, eighths, are exact in single precision); a \<open>Uint8Array\<close>
  element is a byte.
\<close>

type_synonym float32array = "rat list"
type_synonym uint8array = "8 word list"

datatype buffer_source = Float32Array float32array | Uint8Array uint8array

datatype gl_call =
    CreateShader shader_type
  | ShaderSource shader string
  | CompileShader shader
  | GetShaderParameter shader pname
  | GetShaderInfoLog shader
  | DeleteShader shader
  | CreateProgram
  | AttachShader program shader
  | LinkProgram program
  | GetProgramParameter program pname
  | GetProgramInfoLog program
  | DeleteProgram program
  | UseProgram program
  | CreateBuffer
  | Viewport int int int int
  | ClearColor rat rat rat rat
  | Clear "32 word"
  | GetAttribLocation program string
  | EnableVertexAttribArray int
  | BindBuffer target "buffer option"
  | BufferData target buffer_source usage
  | VertexAttribPointer int int gl_type bool int int
  | DrawArrays draw_mode int int

text \<open>
  The answers of a WebGL context. \<open>createShader\<close>, \<open>createProgram\<close> and \<open>createBuffer\<close>
  answer a handle or \<open>null\<close>; the status queries are read for their truthiness only
  (\<open>false\<close> and \<open>null\<close> both take the failure branch); an info log is a string or \<open>null\<close>.
  \<open>createBuffer\<close> has no argument and is called twice, so its answer is indexed by the
  number of the call.
\<close>

record gl_ctx =
  createShader_result :: "shader_type \<Rightarrow> shader option"
  compile_status :: "shader \<Rightarrow> bool"
  shaderInfoLog :: "shader \<Rightarrow> string option"
  createProgram_result :: "program option"
  link_status :: "program \<Rightarrow> bool"
  programInfoLog :: "program \<Rightarrow> string option"
  createBuffer_result :: "nat \<Rightarrow> buffer option"
  attribLocation :: "program \<Rightarrow> string \<Rightarrow> int"

text \<open>
  The closure that \<open>render(gl, program)\<close> returns (lines 143 to 165): it captures \<open>gl\<close> and
  \<open>program\<close>, and \<open>posBuffer\<close>, \<open>pos\<close>, \<open>colBuffer\<close> and \<open>colors\<close> of the enclosing \<open>main\<close>.
\<close>

datatype callback =
  RenderFrame gl_ctx program "buffer option" float32array "buffer option" uint8array

datatype event =
    QuerySelector string
  | GetContext string
  | GL gl_call
  | ConsoleError string
  | ConsoleLog string
  | ResizeCanvasToDisplaySize rat
  | RequestAnimationFrame callback

record canvas =
  getContext_result :: "string \<Rightarrow> gl_ctx option"
  resize_result :: bool
  canvas_width :: nat
  canvas_height :: nat

record host =
  querySelector_result :: "string \<Rightarrow> canvas option"
  devicePixelRatio :: rat

text \<open>
  The three imports of the program that are not part of \<^verbatim>\<open>main.ts\<close>: the two shader
  texts and the coordinate helper of \<^verbatim>\<open>./utils\<close>. They are parameters. The field
  \<open>scaleToBottomLeft\<close> stands for the helper followed by the rounding of the store into the
  new \<open>Float32Array\<close>.
\<close>

record modules =
  vertProgram :: string
  fragProgram :: string
  scaleToBottomLeft :: "rat \<Rightarrow> rat"

section \<open>Strings of the log messages\<close>

text \<open>A template literal prints \<open>null\<close> as the four letters.\<close>

definition template_str :: "string option \<Rightarrow> string" where
  "template_str v = (case v of None \<Rightarrow> ''null'' | Some s \<Rightarrow> s)"

fun show_nat :: "nat \<Rightarrow> string" where
  "show_nat n =
     (if n < 10 then [char_of (48 + n)]
      else show_nat (n div 10) @ [char_of (48 + n mod 10)])"

declare show_nat.simps [simp del]

definition newline :: char where
  "newline = CHR 0x0A"

definition shader_error_message :: "string option \<Rightarrow> string" where
  "shader_error_message info =
     ''Could not compile WebGL shader.'' @ [newline, newline] @
     ''      '' @ template_str info @ [newline] @ ''      ''"

definition program_error_message :: "string option \<Rightarrow> string" where
  "program_error_message info =
     ''Could not compile WebGL program.'' @ [newline] @ ''    '' @ [newline] @
     ''      '' @ template_str info @ [newline] @ ''      ''"

definition no_canvas_message :: string where
  "no_canvas_message =
     ''Unable to get the canvas element. Either your HTML broke or the dev being stupid.'' @
     [newline] @ ''      Report this to the dev ASAP.'' @ [newline] @ ''      ''"

definition no_context_message :: string where
  "no_context_message =
     ''Unable to load WebGL context from canvas. Perhaps your browser doesn'' @ [CHR 0x27] @
     ''t support it. Stopping.'' @ [newline] @ ''      ''"

definition shaders_failed_message :: string where
  "shaders_failed_message = ''Unable to compile shaders. Stopping.''"

definition program_failed_message :: string where
  "program_failed_message = ''Unable to create WebGLProgram. Stopping.''"

definition resized_message :: "bool \<Rightarrow> nat \<Rightarrow> nat \<Rightarrow> string" where
  "resized_message resized w h =
     ''Canvas '' @ (if resized then ''was'' else ''already'') @ '' resized to '' @
     show_nat w @ ''x'' @ show_nat h @ ''.''"

section \<open>createShader and createProgram\<close>

text \<open>
  Lines 8 to 27. The result is the returned handle (\<open>None\<close> for \<open>null\<close>) and the calls
  made, in order. The template literal reads the info log before \<open>console.error\<close> runs.
\<close>

definition createShader :: "gl_ctx \<Rightarrow> shader_type \<Rightarrow> string \<Rightarrow> shader option \<times> event list" where
  "createShader gl type source =
     (case createShader_result gl type of
        None \<Rightarrow> (None, [GL (CreateShader type)])
      | Some shader \<Rightarrow>
          (if \<not> compile_status gl shader then
             (None,
              [GL (CreateShader type), GL (ShaderSource shader source), GL (CompileShader shader),
               GL (GetShaderParameter shader COMPILE_STATUS),
               GL (GetShaderInfoLog shader),
               ConsoleError (shader_error_message (shaderInfoLog gl shader)),
               GL (DeleteShader shader)])
           else
             (Some shader,
              [GL (CreateShader type), GL (ShaderSource shader source), GL (CompileShader shader),
               GL (GetShaderParameter shader COMPILE_STATUS)])))"

text \<open>Lines 29 to 48.\<close>

definition createProgram :: "gl_ctx \<Rightarrow> shader \<Rightarrow> shader \<Rightarrow> program option \<times> event list" where
  "createProgram gl vertShader fragShader =
     (case createProgram_result gl of
        None \<Rightarrow> (None, [GL CreateProgram])
      | Some program \<Rightarrow>
          (if \<not> link_status gl program then
             (None,
              [GL CreateProgram, GL (AttachShader program vertShader),
               GL (AttachShader program fragShader), GL (LinkProgram program),
               GL (GetProgramParameter program LINK_STATUS),
               GL (GetProgramInfoLog program),
               ConsoleError (program_error_message (programInfoLog gl program)),
               GL (DeleteProgram program)])
           else
             (Some program,
              [GL CreateProgram, GL (AttachShader program vertShader),
               GL (AttachShader program fragShader), GL (LinkProgram program),
               GL (GetProgramParameter program LINK_STATUS)])))"

section \<open>The vertex data\<close>

text \<open>
  Lines 90 to 102: nine vertices of two coordinates, then \<open>.map(scaleToBottomLeft)\<close>, which
  yields a typed array of the same length whatever the helper returns.
\<close>

definition raw_pos :: float32array where
  "raw_pos =
     [4 / 8, 4 / 8,
      1 / 8, 4 / 8,
      4 / 8, 1 / 8,

      4 / 8, 7 / 8,
      4 / 8, 4 / 8,
      7 / 8, 4 / 8,

      4 / 8, 4 / 8,
      7 / 8, 4 / 8,
      4 / 8, 1 / 8]"

definition pos :: "modules \<Rightarrow> float32array" where
  "pos m = map (scaleToBottomLeft m) raw_pos"

text \<open>Lines 109 to 130. \<open>new Uint8Array(numbers)\<close> stores each number modulo 256.\<close>

definition stellaColors :: "int list" where
  "stellaColors =
     [196, 92, 255, 255,
      115, 92, 255, 255,
      92, 151, 255, 255]"

definition revalxColors :: "int list" where
  "revalxColors =
     [247, 135, 2, 255,
      236, 247, 2, 255,
      247, 13, 2, 255]"

definition neoColors :: "int list" where
  "neoColors =
     [36, 247, 150, 255,
      36, 238, 247, 255,
      36, 133, 247, 255]"

definition new_Uint8Array :: "int list \<Rightarrow> uint8array" where
  "new_Uint8Array xs = map word_of_int xs"

definition colors :: uint8array where
  "colors = new_Uint8Array ((stellaColors @ revalxColors) @ neoColors)"

section \<open>The frame callback\<close>

text \<open>
  Lines 146 to 164, the body of the function that \<open>render\<close> returns. The vertex count
  \<open>pos.length / 2\<close> is passed to a parameter of integer type.
\<close>

definition render :: "gl_ctx \<Rightarrow> program \<Rightarrow> buffer option \<Rightarrow> float32array \<Rightarrow> buffer option \<Rightarrow>
    uint8array \<Rightarrow> callback" where
  "render gl program posBuffer ps colBuffer cs = RenderFrame gl program posBuffer ps colBuffer cs"

fun invoke :: "callback \<Rightarrow> event list" where
  "invoke (RenderFrame gl program posBuffer ps colBuffer cs) =
     (let attrPosPtr = attribLocation gl program ''a_Pos'';
          attrColPtr = attribLocation gl program ''a_Col''
      in
        [GL (ClearColor 1 1 1 1),
         GL (Clear (COLOR_BUFFER_BIT OR DEPTH_BUFFER_BIT)),
         GL (GetAttribLocation program ''a_Pos''),
         GL (EnableVertexAttribArray attrPosPtr),
         GL (BindBuffer ARRAY_BUFFER posBuffer),
         GL (BufferData ARRAY_BUFFER (Float32Array ps) STATIC_DRAW),
         GL (VertexAttribPointer attrPosPtr 2 FLOAT False 0 0),
         GL (GetAttribLocation program ''a_Col''),
         GL (EnableVertexAttribArray attrColPtr),
         GL (BindBuffer ARRAY_BUFFER colBuffer),
         GL (BufferData ARRAY_BUFFER (Uint8Array cs) STATIC_DRAW),
         GL (VertexAttribPointer attrColPtr 4 UNSIGNED_BYTE True 0 0),
         GL (DrawArrays TRIANGLES 0 (int (length ps) div 2))])"

section \<open>main\<close>

text \<open>
  Lines 82 to 169, after the program is linked. The two \<open>createBuffer\<close> results are used
  as they come: \<open>!!\<close> is a compile-time assertion and checks nothing when the program runs.
\<close>

definition start_rendering :: "modules \<Rightarrow> host \<Rightarrow> canvas \<Rightarrow> gl_ctx \<Rightarrow> program \<Rightarrow> event list" where
  "start_rendering m h cv gl program =
     (let posBuffer = createBuffer_result gl 0;
          colBuffer = createBuffer_result gl 1
      in
        [GL (UseProgram program),
         GL CreateBuffer,
         GL CreateBuffer,
         ResizeCanvasToDisplaySize (devicePixelRatio h),
         ConsoleLog (resized_message (resize_result cv) (canvas_width cv) (canvas_height cv)),
         GL (Viewport 0 0 (int (canvas_width cv)) (int (canvas_height cv))),
         RequestAnimationFrame (render gl program posBuffer (pos m) colBuffer colors),
         ConsoleLog ''done''])"

text \<open>Lines 70 to 81, once the context is there.\<close>

definition build_program :: "modules \<Rightarrow> host \<Rightarrow> canvas \<Rightarrow> gl_ctx \<Rightarrow> event list" where
  "build_program m h cv gl =
     (let (vertexShader, ev1) = createShader gl VERTEX_SHADER (vertProgram m);
          (fragmentShader, ev2) = createShader gl FRAGMENT_SHADER (fragProgram m)
      in
        (case (vertexShader, fragmentShader) of
           (Some vs, Some fs) \<Rightarrow>
             (let (program, ev3) = createProgram gl vs fs
              in (case program of
                    None \<Rightarrow> ev1 @ ev2 @ ev3 @ [ConsoleError program_failed_message]
                  | Some p \<Rightarrow> ev1 @ ev2 @ ev3 @ start_rendering m h cv gl p))
         | _ \<Rightarrow> ev1 @ ev2 @ [ConsoleError shaders_failed_message]))"

text \<open>Lines 50 to 68 and the whole of \<open>main\<close>.\<close>

definition main :: "modules \<Rightarrow> host \<Rightarrow> event list" where
  "main m h =
     (case querySelector_result h ''#canvas'' of
        None \<Rightarrow> [QuerySelector ''#canvas'', ConsoleError no_canvas_message]
      | Some cv \<Rightarrow>
          (case getContext_result cv ''webgl'' of
             None \<Rightarrow>
               [QuerySelector ''#canvas'', GetContext ''webgl'', ConsoleError no_context_message]
           | Some gl \<Rightarrow>
               [QuerySelector ''#canvas'', GetContext ''webgl''] @ build_program m h cv gl))"

section \<open>The browser's animation frames\<close>

text \<open>
  \<open>requestAnimationFrame\<close> registers a callback for the next display refresh only. At a
  refresh the browser runs the callbacks registered since the previous one; what they
  register in turn runs at the refresh after.
\<close>

fun pending :: "event list \<Rightarrow> callback list" where
  "pending [] = []"
| "pending (RequestAnimationFrame cb # es) = cb # pending es"
| "pending (_ # es) = pending es"

definition refresh :: "callback list \<Rightarrow> event list" where
  "refresh cbs = concat (map invoke cbs)"

fun run_refreshes :: "nat \<Rightarrow> callback list \<Rightarrow> event list list" where
  "run_refreshes 0 cbs = []"
| "run_refreshes (Suc n) cbs = refresh cbs # run_refreshes n (pending (refresh cbs))"

text \<open>Everything the page does from its load to its \<open>n\<close>-th display refresh.\<close>

definition page_events :: "modules \<Rightarrow> host \<Rightarrow> nat \<Rightarrow> event list" where
  "page_events m h n = main m h @ concat (run_refreshes n (pending (main m h)))"

section \<open>Reading a trace\<close>

fun gl_calls :: "event list \<Rightarrow> gl_call list" where
  "gl_calls [] = []"
| "gl_calls (GL c # es) = c # gl_calls es"
| "gl_calls (_ # es) = gl_calls es"

fun console_errors :: "event list \<Rightarrow> string list" where
  "console_errors [] = []"
| "console_errors (ConsoleError s # es) = s # console_errors es"
| "console_errors (_ # es) = console_errors es"

fun is_shader_call :: "gl_call \<Rightarrow> bool" where
  "is_shader_call (CreateShader _) = True"
| "is_shader_call (ShaderSource _ _) = True"
| "is_shader_call (CompileShader _) = True"
| "is_shader_call (GetShaderParameter _ _) = True"
| "is_shader_call (GetShaderInfoLog _) = True"
| "is_shader_call (DeleteShader _) = True"
| "is_shader_call _ = False"

fun is_program_call :: "gl_call \<Rightarrow> bool" where
  "is_program_call CreateProgram = True"
| "is_program_call (AttachShader _ _) = True"
| "is_program_call (LinkProgram _) = True"
| "is_program_call (GetProgramParameter _ _) = True"
| "is_program_call (GetProgramInfoLog _) = True"
| "is_program_call (DeleteProgram _) = True"
| "is_program_call (UseProgram _) = True"
| "is_program_call _ = False"

fun is_buffer_call :: "gl_call \<Rightarrow> bool" where
  "is_buffer_call CreateBuffer = True"
| "is_buffer_call (BindBuffer _ _) = True"
| "is_buffer_call (BufferData _ _ _) = True"
| "is_buffer_call _ = False"

fun is_draw_call :: "gl_call \<Rightarrow> bool" where
  "is_draw_call (DrawArrays _ _ _) = True"
| "is_draw_call _ = False"

fun is_upload :: "gl_call \<Rightarrow> bool" where
  "is_upload (BufferData _ _ _) = True"
| "is_upload _ = False"

text \<open>
  The shader handles that a trace has allocated and not deleted, and the same for program
  handles: a handle enters at the \<open>create\<close> call that answered it and leaves at its
  \<open>delete\<close> call.
\<close>

fun live_shaders :: "gl_ctx \<Rightarrow> shader list \<Rightarrow> event list \<Rightarrow> shader list" where
  "live_shaders gl live [] = live"
| "live_shaders gl live (GL (CreateShader ty) # es) =
     live_shaders gl (case createShader_result gl ty of None \<Rightarrow> live | Some s \<Rightarrow> s # live) es"
| "live_shaders gl live (GL (DeleteShader s) # es) = live_shaders gl (removeAll s live) es"
| "live_shaders gl live (_ # es) = live_shaders gl live es"

fun live_programs :: "gl_ctx \<Rightarrow> program list \<Rightarrow> event list \<Rightarrow> program list" where
  "live_programs gl live [] = live"
| "live_programs gl live (GL CreateProgram # es) =
     live_programs gl (case createProgram_result gl of None \<Rightarrow> live | Some p \<Rightarrow> p # live) es"
| "live_programs gl live (GL (DeleteProgram p) # es) = live_programs gl (removeAll p live) es"
| "live_programs gl live (_ # es) = live_programs gl live es"

text \<open>
  How a trace sets its vertex attributes up. The scan keeps the attribute indices enabled
  so far, the buffer bound to \<open>ARRAY_BUFFER\<close> and what has been uploaded through that
  binding; at each \<open>vertexAttribPointer\<close> it reports the index, whether the index is
  enabled by then, the bound buffer with its uploaded data, and the layout described.
\<close>

record attrib_setup =
  as_index :: int
  as_enabled :: bool
  as_buffer :: "buffer option"
  as_uploaded :: "buffer_source option"
  as_size :: int
  as_type :: gl_type
  as_normalized :: bool
  as_stride :: int
  as_offset :: int

fun attrib_setups :: "int list \<Rightarrow> buffer option \<Rightarrow> buffer_source option \<Rightarrow> event list \<Rightarrow>
    attrib_setup list" where
  "attrib_setups en b d [] = []"
| "attrib_setups en b d (GL (EnableVertexAttribArray i) # es) = attrib_setups (i # en) b d es"
| "attrib_setups en b d (GL (BindBuffer ARRAY_BUFFER b') # es) = attrib_setups en b' None es"
| "attrib_setups en b d (GL (BufferData ARRAY_BUFFER src u) # es) =
     attrib_setups en b (Some src) es"
| "attrib_setups en b d (GL (VertexAttribPointer i sz ty nrm st off) # es) =
     \<lparr>as_index = i, as_enabled = (i \<in> set en), as_buffer = b, as_uploaded = d,
      as_size = sz, as_type = ty, as_normalized = nrm, as_stride = st, as_offset = off\<rparr>
     # attrib_setups en b d es"
| "attrib_setups en b d (_ # es) = attrib_setups en b d es"

text \<open>What every \<open>bufferData\<close> call of the program must carry: 18 floats or 36 bytes.\<close>

fun upload_sized :: "gl_call \<Rightarrow> bool" where
  "upload_sized (BufferData _ (Float32Array xs) _) = (length xs = 18)"
| "upload_sized (BufferData _ (Uint8Array xs) _) = (length xs = 36)"
| "upload_sized _ = True"

text \<open>
  Sizes in bytes: of one component of a vertex attribute, and of the data of an upload.
\<close>

fun bytes_per_component :: "gl_type \<Rightarrow> nat" where
  "bytes_per_component FLOAT = 4"
| "bytes_per_component UNSIGNED_BYTE = 1"

fun byte_length :: "buffer_source \<Rightarrow> nat" where
  "byte_length (Float32Array xs) = 4 * length xs"
| "byte_length (Uint8Array xs) = length xs"

section \<open>Example browsers\<close>

text \<open>
  A context in which everything succeeds, and variants in which one step fails. The
  theorems below are instantiated at them.
\<close>

definition gl_ok :: gl_ctx where
  "gl_ok =
     \<lparr>createShader_result =
        (\<lambda>t. case t of VERTEX_SHADER \<Rightarrow> Some (WebGLShader 11)
                     | FRAGMENT_SHADER \<Rightarrow> Some (WebGLShader 12)),
      compile_status = (\<lambda>s. True),
      shaderInfoLog = (\<lambda>s. Some []),
      createProgram_result = Some (WebGLProgram 21),
      link_status = (\<lambda>p. True),
      programInfoLog = (\<lambda>p. Some []),
      createBuffer_result = (\<lambda>n. Some (WebGLBuffer (31 + n))),
      attribLocation = (\<lambda>p name. if name = ''a_Pos'' then 0 else if name = ''a_Col'' then 1 else - 1)\<rparr>"

definition gl_vertex_error :: gl_ctx where
  "gl_vertex_error =
     gl_ok\<lparr>compile_status := (\<lambda>s. s \<noteq> WebGLShader 11),
           shaderInfoLog := (\<lambda>s. Some ''ERROR: 0:3: syntax error'')\<rparr>"

definition gl_link_error :: gl_ctx where
  "gl_link_error =
     gl_ok\<lparr>link_status := (\<lambda>p. False),
           programInfoLog := (\<lambda>p. Some ''error: varying mismatch'')\<rparr>"

definition gl_no_buffers :: gl_ctx where
  "gl_no_buffers = gl_ok\<lparr>createBuffer_result := (\<lambda>n. None)\<rparr>"

definition canvas_with :: "gl_ctx option \<Rightarrow> canvas" where
  "canvas_with ctx =
     \<lparr>getContext_result = (\<lambda>name. if name = ''webgl'' then ctx else None),
      resize_result = True, canvas_width = 640, canvas_height = 480\<rparr>"

definition page_with :: "canvas option \<Rightarrow> host" where
  "page_with cv =
     \<lparr>querySelector_result = (\<lambda>sel. if sel = ''#canvas'' then cv else None),
      devicePixelRatio = 1\<rparr>"

definition host_ok :: host where
  "host_ok = page_with (Some (canvas_with (Some gl_ok)))"

definition host_vertex_error :: host where
  "host_vertex_error = page_with (Some (canvas_with (Some gl_vertex_error)))"

definition host_no_buffers :: host where
  "host_no_buffers = page_with (Some (canvas_with (Some gl_no_buffers)))"

definition host_no_canvas :: host where
  "host_no_canvas = page_with None"

definition host_no_context :: host where
  "host_no_context = page_with (Some (canvas_with None))"

definition flip_and_stretch :: "rat \<Rightarrow> rat" where
  "flip_and_stretch x = 2 * x - 1"

definition example_modules :: modules where
  "example_modules =
     \<lparr>vertProgram = ''attribute vec2 a_Pos; attribute vec4 a_Col;'',
      fragProgram = ''precision mediump float;'',
      scaleToBottomLeft = flip_and_stretch\<rparr>"

section \<open>Basic facts about traces and about main\<close>

lemma pending_append: "pending (xs @ ys) = pending xs @ pending ys"
  by (induction xs rule: pending.induct) simp_all

lemma gl_calls_append: "gl_calls (xs @ ys) = gl_calls xs @ gl_calls ys"
  by (induction xs rule: gl_calls.induct) simp_all

lemma console_errors_append: "console_errors (xs @ ys) = console_errors xs @ console_errors ys"
  by (induction xs rule: console_errors.induct) simp_all

lemma pending_invoke: "pending (invoke cb) = []"
  by (cases cb) (simp add: Let_def)

lemma pending_refresh: "pending (refresh cbs) = []"
  by (induction cbs) (simp_all add: refresh_def pending_append pending_invoke)

lemma run_refreshes_none: "concat (run_refreshes n []) = []"
  by (induction n) (simp_all add: refresh_def)

lemma run_refreshes_once:
  "concat (run_refreshes n cbs) = (if n = 0 then [] else refresh cbs)"
  by (cases n) (simp_all add: pending_refresh run_refreshes_none)

lemma pending_createShader: "pending (snd (createShader gl ty src)) = []"
  by (simp add: createShader_def split: option.splits)

lemma pending_createProgram: "pending (snd (createProgram gl vs fs)) = []"
  by (simp add: createProgram_def split: option.splits)

lemma length_pos: "length (pos m) = 18"
  by (simp add: pos_def raw_pos_def)

lemma length_colors: "length colors = 36"
  by (simp add: colors_def new_Uint8Array_def stellaColors_def revalxColors_def neoColors_def)

lemma pending_start_rendering:
  "pending (start_rendering m h cv gl p) =
     [render gl p (createBuffer_result gl 0) (pos m) (createBuffer_result gl 1) colors]"
  by (simp add: start_rendering_def Let_def)

lemma build_program_eq:
  "build_program m h cv gl =
     snd (createShader gl VERTEX_SHADER (vertProgram m)) @
     snd (createShader gl FRAGMENT_SHADER (fragProgram m)) @
     (case (fst (createShader gl VERTEX_SHADER (vertProgram m)),
            fst (createShader gl FRAGMENT_SHADER (fragProgram m))) of
        (Some vs, Some fs) \<Rightarrow>
          snd (createProgram gl vs fs) @
          (case fst (createProgram gl vs fs) of
             None \<Rightarrow> [ConsoleError program_failed_message]
           | Some p \<Rightarrow> start_rendering m h cv gl p)
      | _ \<Rightarrow> [ConsoleError shaders_failed_message])"
  by (simp add: build_program_def Let_def case_prod_beta split: option.splits)

lemma pending_build_program:
  "pending (build_program m h cv gl) =
     (case (fst (createShader gl VERTEX_SHADER (vertProgram m)),
            fst (createShader gl FRAGMENT_SHADER (fragProgram m))) of
        (Some vs, Some fs) \<Rightarrow>
          (case fst (createProgram gl vs fs) of
             None \<Rightarrow> []
           | Some p \<Rightarrow>
               [render gl p (createBuffer_result gl 0) (pos m) (createBuffer_result gl 1) colors])
      | _ \<Rightarrow> [])"
  by (simp add: build_program_eq pending_append pending_start_rendering
      pending_createShader pending_createProgram split: option.splits)

lemma main_eq:
  "main m h =
     (case querySelector_result h ''#canvas'' of
        None \<Rightarrow> [QuerySelector ''#canvas'', ConsoleError no_canvas_message]
      | Some cv \<Rightarrow>
          QuerySelector ''#canvas'' # GetContext ''webgl'' #
          (case getContext_result cv ''webgl'' of
             None \<Rightarrow> [ConsoleError no_context_message]
           | Some gl \<Rightarrow> build_program m h cv gl))"
  by (simp add: main_def split: option.splits)

lemma pending_main:
  "pending (main m h) =
     (case querySelector_result h ''#canvas'' of
        None \<Rightarrow> []
      | Some cv \<Rightarrow>
          (case getContext_result cv ''webgl'' of
             None \<Rightarrow> []
           | Some gl \<Rightarrow> pending (build_program m h cv gl)))"
  by (simp add: main_eq split: option.splits)

lemma length_pending_main: "length (pending (main m h)) \<le> 1"
  by (simp add: pending_main pending_build_program split: option.splits)

lemma pending_main_render:
  assumes "cb \<in> set (pending (main m h))"
  shows "\<exists>gl p. cb = render gl p (createBuffer_result gl 0) (pos m) (createBuffer_result gl 1) colors"
  using assms by (auto simp add: pending_main pending_build_program split: option.splits)

lemma createShader_no_program_call:
  "filter is_program_call (gl_calls (snd (createShader gl ty src))) = []"
  by (simp add: createShader_def split: option.splits)

lemma createShader_no_buffer_call:
  "filter is_buffer_call (gl_calls (snd (createShader gl ty src))) = []"
  by (simp add: createShader_def split: option.splits)

lemma createShader_no_draw_call:
  "filter is_draw_call (gl_calls (snd (createShader gl ty src))) = []"
  by (simp add: createShader_def split: option.splits)

lemma createProgram_no_draw_call:
  "filter is_draw_call (gl_calls (snd (createProgram gl vs fs))) = []"
  by (simp add: createProgram_def split: option.splits)

lemma createShader_no_upload:
  "filter is_upload (gl_calls (snd (createShader gl ty src))) = []"
  by (simp add: createShader_def split: option.splits)

lemma createProgram_no_upload:
  "filter is_upload (gl_calls (snd (createProgram gl vs fs))) = []"
  by (simp add: createProgram_def split: option.splits)

lemma main_no_draw_call: "filter is_draw_call (gl_calls (main m h)) = []"
  by (simp add: main_eq build_program_eq gl_calls_append createShader_no_draw_call
      createProgram_no_draw_call start_rendering_def Let_def split: option.splits)

lemma main_no_upload: "filter is_upload (gl_calls (main m h)) = []"
  by (simp add: main_eq build_program_eq gl_calls_append createShader_no_upload
      createProgram_no_upload start_rendering_def Let_def split: option.splits)

lemma draw_calls_invoke:
  "filter is_draw_call (gl_calls (invoke (render gl p pb ps cb cs))) =
     [DrawArrays TRIANGLES 0 (int (length ps) div 2)]"
  by (simp add: render_def Let_def)

lemma page_events_eq:
  "page_events m h n = main m h @ (if n = 0 then [] else refresh (pending (main m h)))"
  by (simp add: page_events_def run_refreshes_once)

section \<open>The render callback is scheduled once\<close>

text \<open>
  \<open>main\<close> registers the frame callback at most once (line 167), and the callback's body
  (lines 146 to 164) registers nothing: no invocation of it leaves a callback pending. So
  every display refresh after the first finds nothing to run, and a page draws at most
  once, however many refreshes follow.
\<close>

lemma render_scheduled_once:
  "length (pending (main m h)) \<le> 1 \<and> pending (invoke cb) = [] \<and>
   concat (drop 1 (run_refreshes n (pending (main m h)))) = [] \<and>
   length (filter is_draw_call (gl_calls (page_events m h n))) \<le> 1"
proof -
  have a: "length (pending (main m h)) \<le> 1" by (rule length_pending_main)
  have b: "pending (invoke cb) = []" by (rule pending_invoke)
  have c: "concat (drop 1 (run_refreshes n (pending (main m h)))) = []"
    by (cases n) (simp_all add: pending_refresh run_refreshes_none)
  have d: "length (filter is_draw_call (gl_calls (page_events m h n))) \<le> 1"
    by (simp add: page_events_eq gl_calls_append main_no_draw_call pending_main
        pending_build_program refresh_def draw_calls_invoke split: option.splits)
  from a b c d show ?thesis by simp
qed

text \<open>
  Claim C1: every render invocation schedules the next one, so that rendering goes on at
  every display refresh. The source announces the same (its comment \<open>render loop\<close>, the
  per-loop variable \<open>time\<close> of the closure), yet in the browser where everything succeeds
  startup leaves the callback pending and the refresh that runs it leaves none.
\<close>

theorem render_not_rescheduled:
  "pending (main example_modules host_ok) \<noteq> [] \<and>
   pending (refresh (pending (main example_modules host_ok))) = []"
  by (simp add: pending_refresh pending_main pending_build_program host_ok_def page_with_def
      canvas_with_def gl_ok_def createShader_def createProgram_def)


section \<open>The example browsers, evaluated\<close>

lemma gl_ok_fields:
  "createShader_result gl_ok VERTEX_SHADER = Some (WebGLShader 11)"
  "createShader_result gl_ok FRAGMENT_SHADER = Some (WebGLShader 12)"
  "compile_status gl_ok s"
  "createProgram_result gl_ok = Some (WebGLProgram 21)"
  "link_status gl_ok p"
  "createBuffer_result gl_ok n = Some (WebGLBuffer (31 + n))"
  "attribLocation gl_ok p ''a_Pos'' = 0"
  "attribLocation gl_ok p ''a_Col'' = 1"
  by (simp_all add: gl_ok_def)

lemma gl_vertex_error_fields:
  "createShader_result gl_vertex_error VERTEX_SHADER = Some (WebGLShader 11)"
  "createShader_result gl_vertex_error FRAGMENT_SHADER = Some (WebGLShader 12)"
  "\<not> compile_status gl_vertex_error (WebGLShader 11)"
  "compile_status gl_vertex_error (WebGLShader 12)"
  "shaderInfoLog gl_vertex_error s = Some ''ERROR: 0:3: syntax error''"
  by (simp_all add: gl_vertex_error_def gl_ok_def)

lemma gl_link_error_fields:
  "createProgram_result gl_link_error = Some (WebGLProgram 21)"
  "\<not> link_status gl_link_error p"
  "programInfoLog gl_link_error p = Some ''error: varying mismatch''"
  by (simp_all add: gl_link_error_def gl_ok_def)

lemma gl_no_buffers_fields:
  "createShader_result gl_no_buffers VERTEX_SHADER = Some (WebGLShader 11)"
  "createShader_result gl_no_buffers FRAGMENT_SHADER = Some (WebGLShader 12)"
  "compile_status gl_no_buffers s"
  "createProgram_result gl_no_buffers = Some (WebGLProgram 21)"
  "link_status gl_no_buffers p"
  "createBuffer_result gl_no_buffers n = None"
  by (simp_all add: gl_no_buffers_def gl_ok_def)

lemma page_fields:
  "querySelector_result (page_with cv) ''#canvas'' = cv"
  "getContext_result (canvas_with ctx) ''webgl'' = ctx"
  by (simp_all add: page_with_def canvas_with_def)

lemma pending_main_host_ok:
  "pending (main example_modules host_ok) =
     [render gl_ok (WebGLProgram 21) (Some (WebGLBuffer 31)) (pos example_modules)
        (Some (WebGLBuffer 32)) colors]"
  by (simp add: pending_main pending_build_program host_ok_def page_fields
      createShader_def createProgram_def gl_ok_fields)

section \<open>One frame\<close>

text \<open>
  Claim C2. Every invocation of a callback that \<open>main\<close> registered begins with
  \<open>clearColor(1, 1, 1, 1)\<close>, opaque white, and a \<open>clear\<close> whose mask holds the colour bit
  and the depth bit (the program never sets a clear depth, so the depth buffer is cleared
  to the context's default). It issues exactly one draw call, its last call:
  \<open>drawArrays(TRIANGLES, 0, 9)\<close>.
\<close>

theorem render_clears_then_draws_once:
  assumes "cb \<in> set (pending (main m h))"
  shows "take 2 (gl_calls (invoke cb)) =
           [ClearColor 1 1 1 1, Clear (COLOR_BUFFER_BIT OR DEPTH_BUFFER_BIT)] \<and>
         (COLOR_BUFFER_BIT OR DEPTH_BUFFER_BIT) AND COLOR_BUFFER_BIT = COLOR_BUFFER_BIT \<and>
         (COLOR_BUFFER_BIT OR DEPTH_BUFFER_BIT) AND DEPTH_BUFFER_BIT = DEPTH_BUFFER_BIT \<and>
         COLOR_BUFFER_BIT \<noteq> 0 \<and> DEPTH_BUFFER_BIT \<noteq> 0 \<and>
         filter is_draw_call (gl_calls (invoke cb)) = [DrawArrays TRIANGLES 0 9] \<and>
         last (invoke cb) = GL (DrawArrays TRIANGLES 0 9)"
proof -
  from assms obtain gl p where
    cb: "cb = render gl p (createBuffer_result gl 0) (pos m) (createBuffer_result gl 1) colors"
    using pending_main_render by blast
  have bits: "(COLOR_BUFFER_BIT OR DEPTH_BUFFER_BIT) AND COLOR_BUFFER_BIT = COLOR_BUFFER_BIT"
    "(COLOR_BUFFER_BIT OR DEPTH_BUFFER_BIT) AND DEPTH_BUFFER_BIT = DEPTH_BUFFER_BIT"
    "COLOR_BUFFER_BIT \<noteq> 0" "DEPTH_BUFFER_BIT \<noteq> 0"
    by (simp_all add: COLOR_BUFFER_BIT_def DEPTH_BUFFER_BIT_def)
  have calls: "take 2 (gl_calls (invoke cb)) =
      [ClearColor 1 1 1 1, Clear (COLOR_BUFFER_BIT OR DEPTH_BUFFER_BIT)]"
    by (simp add: cb render_def Let_def)
  have draws: "filter is_draw_call (gl_calls (invoke cb)) = [DrawArrays TRIANGLES 0 9]"
    by (simp add: cb draw_calls_invoke length_pos)
  have lst: "last (invoke cb) = GL (DrawArrays TRIANGLES 0 9)"
    by (simp add: cb render_def Let_def length_pos)
  from bits calls draws lst show ?thesis by simp
qed

theorem render_clears_then_draws_once_witness:
  "pending (main example_modules host_ok) =
     [render gl_ok (WebGLProgram 21) (Some (WebGLBuffer 31)) (pos example_modules)
        (Some (WebGLBuffer 32)) colors] \<and>
   take 2 (gl_calls (invoke (render gl_ok (WebGLProgram 21) (Some (WebGLBuffer 31))
        (pos example_modules) (Some (WebGLBuffer 32)) colors))) =
     [ClearColor 1 1 1 1, Clear 0x4100] \<and>
   filter is_draw_call (gl_calls (invoke (render gl_ok (WebGLProgram 21) (Some (WebGLBuffer 31))
        (pos example_modules) (Some (WebGLBuffer 32)) colors))) = [DrawArrays TRIANGLES 0 9]"
proof -
  note p = pending_main_host_ok
  have m: "render gl_ok (WebGLProgram 21) (Some (WebGLBuffer 31)) (pos example_modules)
        (Some (WebGLBuffer 32)) colors \<in> set (pending (main example_modules host_ok))"
    by (simp add: p)
  show ?thesis
    using render_clears_then_draws_once [OF m] p
    by (simp add: COLOR_BUFFER_BIT_def DEPTH_BUFFER_BIT_def)
qed

lemma createShader_upload_sized:
  "list_all upload_sized (gl_calls (snd (createShader gl ty src)))"
  by (simp add: createShader_def split: option.splits)

lemma createProgram_upload_sized:
  "list_all upload_sized (gl_calls (snd (createProgram gl vs fs)))"
  by (simp add: createProgram_def split: option.splits)

lemma main_upload_sized: "list_all upload_sized (gl_calls (main m h))"
  by (simp add: main_eq build_program_eq gl_calls_append createShader_upload_sized
      createProgram_upload_sized start_rendering_def Let_def split: option.splits)

lemma invoke_upload_sized:
  "list_all upload_sized (gl_calls (invoke (render gl p pb (pos m) cb colors)))"
  by (simp add: render_def Let_def length_pos length_colors)

lemma refresh_upload_sized:
  "list_all upload_sized (gl_calls (refresh (pending (main m h))))"
  by (simp add: pending_main pending_build_program refresh_def invoke_upload_sized
      split: option.splits)

section \<open>The vertex arrays\<close>

text \<open>
  Claim C3. Whatever the coordinate helper returns, the position array holds 18 floats and
  the colour array 36 bytes, that is 9 vertices of 2 coordinates and 9 colours of 4
  components. The arrays are never written after their creation: every upload the page
  ever makes, at startup or at any display refresh, carries an array of that length.
\<close>

theorem vertex_arrays_sized:
  "length (pos m) = 18 \<and> length colors = 36 \<and>
   length (pos m) = 2 * 9 \<and> length colors = 4 * 9 \<and>
   length (pos m) div 2 = length colors div 4 \<and>
   list_all upload_sized (gl_calls (page_events m h n))"
proof -
  have "list_all upload_sized (gl_calls (page_events m h n))"
    by (simp add: page_events_eq gl_calls_append main_upload_sized refresh_upload_sized)
  then show ?thesis by (simp add: length_pos length_colors)
qed

theorem vertex_arrays_sized_witness:
  "filter is_upload (gl_calls (page_events example_modules host_ok 1)) =
     [BufferData ARRAY_BUFFER (Float32Array (pos example_modules)) STATIC_DRAW,
      BufferData ARRAY_BUFFER (Uint8Array colors) STATIC_DRAW] \<and>
   length (pos example_modules) = 18 \<and> length colors = 36 \<and>
   list_all upload_sized (gl_calls (page_events example_modules host_ok 1))"
  using vertex_arrays_sized [of example_modules host_ok 1]
  by (simp add: page_events_eq gl_calls_append main_no_upload pending_main_host_ok refresh_def
      render_def Let_def)

lemma shader_error_message_holds_log:
  "\<exists>a b. shader_error_message info = a @ template_str info @ b"
proof -
  have "shader_error_message info =
      (''Could not compile WebGL shader.'' @ [newline, newline] @ ''      '') @
      template_str info @ ([newline] @ ''      '')"
    by (simp add: shader_error_message_def)
  then show ?thesis by blast
qed

lemma program_error_message_holds_log:
  "\<exists>a b. program_error_message info = a @ template_str info @ b"
proof -
  have "program_error_message info =
      (''Could not compile WebGL program.'' @ [newline] @ ''    '' @ [newline] @ ''      '') @
      template_str info @ ([newline] @ ''      '')"
    by (simp add: program_error_message_def)
  then show ?thesis by blast
qed

section \<open>Failure paths of createShader and createProgram\<close>

text \<open>
  Claim C4. When the allocated shader reports a failed compile status, \<open>createShader\<close>
  returns \<open>null\<close>; it reads the info log, logs one message, which is never empty, and
  deletes the handle as its last call. The message is the heading
  \<open>Could not compile WebGL shader.\<close>, an empty line, and the retrieved log on a line of
  its own (the word \<open>null\<close> when the context answers no log): whatever text the log
  holds occurs in what is logged. No shader handle that the call allocated is left alive.
\<close>

theorem createShader_compile_failure:
  assumes "createShader_result gl ty = Some sh" and "\<not> compile_status gl sh"
  shows "fst (createShader gl ty src) = None \<and>
         console_errors (snd (createShader gl ty src)) =
           [shader_error_message (shaderInfoLog gl sh)] \<and>
         shader_error_message (shaderInfoLog gl sh) \<noteq> [] \<and>
         (\<exists>a b. shader_error_message (shaderInfoLog gl sh) =
            a @ template_str (shaderInfoLog gl sh) @ b) \<and>
         console_errors (snd (createShader gl ty src)) =
           [''Could not compile WebGL shader.'' @ [CHR 0x0A, CHR 0x0A] @ ''      '' @
            (case shaderInfoLog gl sh of None \<Rightarrow> ''null'' | Some l \<Rightarrow> l) @
            [CHR 0x0A] @ ''      ''] \<and>
         (\<forall>l. shaderInfoLog gl sh = Some l \<longrightarrow>
            (\<exists>a b. console_errors (snd (createShader gl ty src)) = [a @ l @ b])) \<and>
         (\<exists>before. snd (createShader gl ty src) =
            before @ [GL (GetShaderInfoLog sh),
                      ConsoleError (shader_error_message (shaderInfoLog gl sh)),
                      GL (DeleteShader sh)]) \<and>
         live_shaders gl [] (snd (createShader gl ty src)) = []"
proof -
  have nonempty: "shader_error_message (shaderInfoLog gl sh) \<noteq> []"
    by (simp add: shader_error_message_def)
  have errs: "console_errors (snd (createShader gl ty src)) =
      [shader_error_message (shaderInfoLog gl sh)]"
    using assms by (simp add: createShader_def)
  have msg: "shader_error_message (shaderInfoLog gl sh) =
      ''Could not compile WebGL shader.'' @ [CHR 0x0A, CHR 0x0A] @ ''      '' @
      (case shaderInfoLog gl sh of None \<Rightarrow> ''null'' | Some l \<Rightarrow> l) @
      [CHR 0x0A] @ ''      ''"
    by (simp add: shader_error_message_def template_str_def newline_def)
  have holds: "\<exists>a b. console_errors (snd (createShader gl ty src)) = [a @ l @ b]"
    if "shaderInfoLog gl sh = Some l" for l
  proof -
    have "shader_error_message (shaderInfoLog gl sh) =
        (''Could not compile WebGL shader.'' @ [CHR 0x0A, CHR 0x0A] @ ''      '') @ l @
        ([CHR 0x0A] @ ''      '')"
      using msg unfolding that by simp
    then show ?thesis unfolding errs by blast
  qed
  have rest: "fst (createShader gl ty src) = None \<and>
      (\<exists>before. snd (createShader gl ty src) =
         before @ [GL (GetShaderInfoLog sh),
                   ConsoleError (shader_error_message (shaderInfoLog gl sh)),
                   GL (DeleteShader sh)]) \<and>
      live_shaders gl [] (snd (createShader gl ty src)) = []"
    using assms by (simp add: createShader_def)
  from errs msg have lit: "console_errors (snd (createShader gl ty src)) =
      [''Could not compile WebGL shader.'' @ [CHR 0x0A, CHR 0x0A] @ ''      '' @
       (case shaderInfoLog gl sh of None \<Rightarrow> ''null'' | Some l \<Rightarrow> l) @
       [CHR 0x0A] @ ''      '']"
    by simp
  from rest errs nonempty shader_error_message_holds_log [of "shaderInfoLog gl sh"] lit holds
  show ?thesis by blast
qed

theorem createShader_compile_failure_witness:
  "createShader gl_vertex_error VERTEX_SHADER ''void main() {'' =
     (None,
      [GL (CreateShader VERTEX_SHADER),
       GL (ShaderSource (WebGLShader 11) ''void main() {''),
       GL (CompileShader (WebGLShader 11)),
       GL (GetShaderParameter (WebGLShader 11) COMPILE_STATUS),
       GL (GetShaderInfoLog (WebGLShader 11)),
       ConsoleError
         (''Could not compile WebGL shader.'' @ [CHR 0x0A, CHR 0x0A] @
          ''      ERROR: 0:3: syntax error'' @ [CHR 0x0A] @ ''      ''),
       GL (DeleteShader (WebGLShader 11))]) \<and>
   console_errors (snd (createShader gl_vertex_error VERTEX_SHADER ''void main() {'')) =
     [''Could not compile WebGL shader.'' @ [CHR 0x0A, CHR 0x0A] @
      ''      ERROR: 0:3: syntax error'' @ [CHR 0x0A] @ ''      ''] \<and>
   live_shaders gl_vertex_error []
     (snd (createShader gl_vertex_error VERTEX_SHADER ''void main() {'')) = []"
proof -
  have run: "createShader gl_vertex_error VERTEX_SHADER ''void main() {'' =
     (None,
      [GL (CreateShader VERTEX_SHADER),
       GL (ShaderSource (WebGLShader 11) ''void main() {''),
       GL (CompileShader (WebGLShader 11)),
       GL (GetShaderParameter (WebGLShader 11) COMPILE_STATUS),
       GL (GetShaderInfoLog (WebGLShader 11)),
       ConsoleError
         (''Could not compile WebGL shader.'' @ [CHR 0x0A, CHR 0x0A] @
          ''      ERROR: 0:3: syntax error'' @ [CHR 0x0A] @ ''      ''),
       GL (DeleteShader (WebGLShader 11))])"
    by (simp add: gl_vertex_error_fields createShader_def shader_error_message_def
        template_str_def newline_def)
  show ?thesis
    using createShader_compile_failure [OF gl_vertex_error_fields(1) gl_vertex_error_fields(3),
        of "''void main() {''"] run
    by (simp add: gl_vertex_error_fields)
qed

text \<open>
  Claim C5. When the allocated program reports a failed link status, \<open>createProgram\<close>
  returns \<open>null\<close>; it reads the info log, logs one message, which is never empty, and
  deletes the program handle as its last call. The message is the heading
  \<open>Could not compile WebGL program.\<close>, a line of four blanks, and the retrieved log on
  a line of its own (the word \<open>null\<close> when the context answers no log): whatever text
  the log holds occurs in what is logged. No program handle that the call allocated is
  left alive.
\<close>

theorem createProgram_link_failure:
  assumes "createProgram_result gl = Some pr" and "\<not> link_status gl pr"
  shows "fst (createProgram gl vs fs) = None \<and>
         console_errors (snd (createProgram gl vs fs)) =
           [program_error_message (programInfoLog gl pr)] \<and>
         program_error_message (programInfoLog gl pr) \<noteq> [] \<and>
         (\<exists>a b. program_error_message (programInfoLog gl pr) =
            a @ template_str (programInfoLog gl pr) @ b) \<and>
         console_errors (snd (createProgram gl vs fs)) =
           [''Could not compile WebGL program.'' @ [CHR 0x0A] @ ''    '' @ [CHR 0x0A] @
            ''      '' @
            (case programInfoLog gl pr of None \<Rightarrow> ''null'' | Some l \<Rightarrow> l) @
            [CHR 0x0A] @ ''      ''] \<and>
         (\<forall>l. programInfoLog gl pr = Some l \<longrightarrow>
            (\<exists>a b. console_errors (snd (createProgram gl vs fs)) = [a @ l @ b])) \<and>
         (\<exists>before. snd (createProgram gl vs fs) =
            before @ [GL (GetProgramInfoLog pr),
                      ConsoleError (program_error_message (programInfoLog gl pr)),
                      GL (DeleteProgram pr)]) \<and>
         live_programs gl [] (snd (createProgram gl vs fs)) = []"
proof -
  have nonempty: "program_error_message (programInfoLog gl pr) \<noteq> []"
    by (simp add: program_error_message_def)
  have errs: "console_errors (snd (createProgram gl vs fs)) =
      [program_error_message (programInfoLog gl pr)]"
    using assms by (simp add: createProgram_def)
  have msg: "program_error_message (programInfoLog gl pr) =
      ''Could not compile WebGL program.'' @ [CHR 0x0A] @ ''    '' @ [CHR 0x0A] @
      ''      '' @
      (case programInfoLog gl pr of None \<Rightarrow> ''null'' | Some l \<Rightarrow> l) @
      [CHR 0x0A] @ ''      ''"
    by (simp add: program_error_message_def template_str_def newline_def)
  have holds: "\<exists>a b. console_errors (snd (createProgram gl vs fs)) = [a @ l @ b]"
    if "programInfoLog gl pr = Some l" for l
  proof -
    have "program_error_message (programInfoLog gl pr) =
        (''Could not compile WebGL program.'' @ [CHR 0x0A] @ ''    '' @ [CHR 0x0A] @
         ''      '') @ l @ ([CHR 0x0A] @ ''      '')"
      using msg unfolding that by simp
    then show ?thesis unfolding errs by blast
  qed
  have rest: "fst (createProgram gl vs fs) = None \<and>
      (\<exists>before. snd (createProgram gl vs fs) =
         before @ [GL (GetProgramInfoLog pr),
                   ConsoleError (program_error_message (programInfoLog gl pr)),
                   GL (DeleteProgram pr)]) \<and>
      live_programs gl [] (snd (createProgram gl vs fs)) = []"
    using assms by (simp add: createProgram_def)
  from errs msg have lit: "console_errors (snd (createProgram gl vs fs)) =
      [''Could not compile WebGL program.'' @ [CHR 0x0A] @ ''    '' @ [CHR 0x0A] @
       ''      '' @
       (case programInfoLog gl pr of None \<Rightarrow> ''null'' | Some l \<Rightarrow> l) @
       [CHR 0x0A] @ ''      '']"
    by simp
  from rest errs nonempty program_error_message_holds_log [of "programInfoLog gl pr"] lit holds
  show ?thesis by blast
qed

theorem createProgram_link_failure_witness:
  "createProgram gl_link_error (WebGLShader 11) (WebGLShader 12) =
     (None,
      [GL CreateProgram,
       GL (AttachShader (WebGLProgram 21) (WebGLShader 11)),
       GL (AttachShader (WebGLProgram 21) (WebGLShader 12)),
       GL (LinkProgram (WebGLProgram 21)),
       GL (GetProgramParameter (WebGLProgram 21) LINK_STATUS),
       GL (GetProgramInfoLog (WebGLProgram 21)),
       ConsoleError
         (''Could not compile WebGL program.'' @ [CHR 0x0A] @ ''    '' @ [CHR 0x0A] @
          ''      error: varying mismatch'' @ [CHR 0x0A] @ ''      ''),
       GL (DeleteProgram (WebGLProgram 21))]) \<and>
   console_errors (snd (createProgram gl_link_error (WebGLShader 11) (WebGLShader 12))) =
     [''Could not compile WebGL program.'' @ [CHR 0x0A] @ ''    '' @ [CHR 0x0A] @
      ''      error: varying mismatch'' @ [CHR 0x0A] @ ''      ''] \<and>
   live_programs gl_link_error []
     (snd (createProgram gl_link_error (WebGLShader 11) (WebGLShader 12))) = []"
proof -
  have run: "createProgram gl_link_error (WebGLShader 11) (WebGLShader 12) =
     (None,
      [GL CreateProgram,
       GL (AttachShader (WebGLProgram 21) (WebGLShader 11)),
       GL (AttachShader (WebGLProgram 21) (WebGLShader 12)),
       GL (LinkProgram (WebGLProgram 21)),
       GL (GetProgramParameter (WebGLProgram 21) LINK_STATUS),
       GL (GetProgramInfoLog (WebGLProgram 21)),
       ConsoleError
         (''Could not compile WebGL program.'' @ [CHR 0x0A] @ ''    '' @ [CHR 0x0A] @
          ''      error: varying mismatch'' @ [CHR 0x0A] @ ''      ''),
       GL (DeleteProgram (WebGLProgram 21))])"
    by (simp add: gl_link_error_fields createProgram_def program_error_message_def
        template_str_def newline_def)
  show ?thesis
    using createProgram_link_failure [OF gl_link_error_fields(1) gl_link_error_fields(2),
        of "WebGLShader 11" "WebGLShader 12"] run
    by (simp add: gl_link_error_fields)
qed

lemma createShader_failed:
  assumes "createShader_result gl ty = Some sh" and "\<not> compile_status gl sh"
  shows "fst (createShader gl ty src) = None"
  using assms by (simp add: createShader_def)

lemma main_shaders_failed:
  assumes "querySelector_result h ''#canvas'' = Some cv"
    and "getContext_result cv ''webgl'' = Some gl"
    and "fst (createShader gl VERTEX_SHADER (vertProgram m)) = None \<or>
         fst (createShader gl FRAGMENT_SHADER (fragProgram m)) = None"
  shows "main m h =
           [QuerySelector ''#canvas'', GetContext ''webgl''] @
           snd (createShader gl VERTEX_SHADER (vertProgram m)) @
           snd (createShader gl FRAGMENT_SHADER (fragProgram m)) @
           [ConsoleError shaders_failed_message]"
  using assms by (auto simp add: main_eq build_program_eq split: option.splits)

section \<open>Startup failures\<close>

text \<open>
  Claim C6. When the vertex shader fails to compile, \<open>createShader\<close> answers \<open>null\<close> for
  that stage and the page, over any number of display refreshes, makes no call on a
  program (so \<open>createProgram\<close> never runs), none on a buffer and no draw call; its last
  event is the log message of the failed shaders, and no frame callback is pending.
\<close>

theorem vertex_failure_halts_before_link:
  assumes "querySelector_result h ''#canvas'' = Some cv"
    and "getContext_result cv ''webgl'' = Some gl"
    and "createShader_result gl VERTEX_SHADER = Some sh"
    and "\<not> compile_status gl sh"
  shows "fst (createShader gl VERTEX_SHADER (vertProgram m)) = None \<and>
         filter is_program_call (gl_calls (page_events m h n)) = [] \<and>
         filter is_buffer_call (gl_calls (page_events m h n)) = [] \<and>
         filter is_draw_call (gl_calls (page_events m h n)) = [] \<and>
         last (page_events m h n) = ConsoleError shaders_failed_message \<and>
         pending (main m h) = []"
proof -
  have f: "fst (createShader gl VERTEX_SHADER (vertProgram m)) = None"
    using assms(3,4) by (rule createShader_failed)
  have mn: "main m h =
           [QuerySelector ''#canvas'', GetContext ''webgl''] @
           snd (createShader gl VERTEX_SHADER (vertProgram m)) @
           snd (createShader gl FRAGMENT_SHADER (fragProgram m)) @
           [ConsoleError shaders_failed_message]"
    using assms(1,2) f by (simp add: main_shaders_failed)
  have pd: "pending (main m h) = []"
    by (simp add: mn pending_append pending_createShader)
  have pe: "page_events m h n = main m h"
    by (simp add: page_events_eq pd refresh_def)
  have "filter is_program_call (gl_calls (main m h)) = []"
    by (simp add: mn gl_calls_append createShader_no_program_call)
  moreover have "filter is_buffer_call (gl_calls (main m h)) = []"
    by (simp add: mn gl_calls_append createShader_no_buffer_call)
  moreover have "last (main m h) = ConsoleError shaders_failed_message"
    by (simp add: mn)
  ultimately show ?thesis using f pd pe main_no_draw_call [of m h] by simp
qed

theorem vertex_failure_halts_before_link_witness:
  "fst (createShader gl_vertex_error VERTEX_SHADER (vertProgram example_modules)) = None \<and>
   filter is_program_call (gl_calls (page_events example_modules host_vertex_error 3)) = [] \<and>
   filter is_buffer_call (gl_calls (page_events example_modules host_vertex_error 3)) = [] \<and>
   filter is_draw_call (gl_calls (page_events example_modules host_vertex_error 3)) = [] \<and>
   last (page_events example_modules host_vertex_error 3) = ConsoleError shaders_failed_message \<and>
   pending (main example_modules host_vertex_error) = []"
proof -
  have q: "querySelector_result host_vertex_error ''#canvas'' =
      Some (canvas_with (Some gl_vertex_error))"
    by (simp add: host_vertex_error_def page_fields)
  have c: "getContext_result (canvas_with (Some gl_vertex_error)) ''webgl'' =
      Some gl_vertex_error"
    by (simp add: page_fields)
  show ?thesis
    by (rule vertex_failure_halts_before_link
        [OF q c gl_vertex_error_fields(1) gl_vertex_error_fields(3)])
qed

text \<open>
  Claim C7. When the canvas is not found, or the canvas gives no WebGL context, the page
  makes no WebGL call at all, over any number of display refreshes: no shader work and no
  draw. It logs one message, the one of the missing canvas or the one of the missing
  context, both different from the message of the failed shaders, and registers no frame
  callback.
\<close>

theorem no_surface_halts_before_shaders:
  assumes "querySelector_result h ''#canvas'' = None \<or>
           (\<exists>cv. querySelector_result h ''#canvas'' = Some cv \<and>
                 getContext_result cv ''webgl'' = None)"
  shows "gl_calls (page_events m h n) = [] \<and>
         console_errors (page_events m h n) =
           [if querySelector_result h ''#canvas'' = None then no_canvas_message
            else no_context_message] \<and>
         last (page_events m h n) =
           ConsoleError (if querySelector_result h ''#canvas'' = None then no_canvas_message
                         else no_context_message) \<and>
         no_canvas_message \<noteq> shaders_failed_message \<and>
         no_context_message \<noteq> shaders_failed_message \<and>
         pending (main m h) = []"
proof -
  have d: "no_canvas_message \<noteq> shaders_failed_message"
    "no_context_message \<noteq> shaders_failed_message"
    by (simp_all add: no_canvas_message_def no_context_message_def shaders_failed_message_def)
  from assms have pd: "pending (main m h) = []"
    by (auto simp add: pending_main)
  have pe: "page_events m h n = main m h"
    by (simp add: page_events_eq pd refresh_def)
  from assms have "gl_calls (main m h) = []"
    by (auto simp add: main_eq)
  moreover from assms have "console_errors (main m h) =
           [if querySelector_result h ''#canvas'' = None then no_canvas_message
            else no_context_message]"
    by (auto simp add: main_eq)
  moreover from assms have "last (main m h) =
           ConsoleError (if querySelector_result h ''#canvas'' = None then no_canvas_message
                         else no_context_message)"
    by (auto simp add: main_eq)
  ultimately show ?thesis using d pd pe by simp
qed

theorem no_surface_halts_before_shaders_witness:
  "page_events example_modules host_no_canvas 3 =
     [QuerySelector ''#canvas'', ConsoleError no_canvas_message] \<and>
   page_events example_modules host_no_context 3 =
     [QuerySelector ''#canvas'', GetContext ''webgl'', ConsoleError no_context_message] \<and>
   gl_calls (page_events example_modules host_no_canvas 3) = [] \<and>
   gl_calls (page_events example_modules host_no_context 3) = [] \<and>
   no_canvas_message \<noteq> shaders_failed_message \<and>
   no_context_message \<noteq> shaders_failed_message"
proof -
  have a: "querySelector_result host_no_canvas ''#canvas'' = None"
    by (simp add: host_no_canvas_def page_fields)
  have b: "querySelector_result host_no_context ''#canvas'' = Some (canvas_with None)"
    by (simp add: host_no_context_def page_fields)
  have c: "getContext_result (canvas_with None) ''webgl'' = None"
    by (simp add: page_fields)
  have a': "querySelector_result host_no_canvas ''#canvas'' = None \<or>
           (\<exists>cv. querySelector_result host_no_canvas ''#canvas'' = Some cv \<and>
                 getContext_result cv ''webgl'' = None)"
    using a by simp
  have b': "querySelector_result host_no_context ''#canvas'' = None \<or>
           (\<exists>cv. querySelector_result host_no_context ''#canvas'' = Some cv \<and>
                 getContext_result cv ''webgl'' = None)"
    using b c by simp
  have e1: "page_events example_modules host_no_canvas 3 =
     [QuerySelector ''#canvas'', ConsoleError no_canvas_message]"
    by (simp add: page_events_eq main_eq a refresh_def)
  have e2: "page_events example_modules host_no_context 3 =
     [QuerySelector ''#canvas'', GetContext ''webgl'', ConsoleError no_context_message]"
    by (simp add: page_events_eq main_eq b c refresh_def)
  show ?thesis
    using no_surface_halts_before_shaders [OF a', of example_modules 3]
      no_surface_halts_before_shaders [OF b', of example_modules 3] e1 e2
    by simp
qed

lemma createShader_ok_no_error:
  assumes "fst (createShader gl ty src) = Some sh"
  shows "console_errors (snd (createShader gl ty src)) = []"
  using assms by (auto simp add: createShader_def split: option.splits if_splits)

lemma createProgram_ok_no_error:
  assumes "fst (createProgram gl vs fs) = Some p"
  shows "console_errors (snd (createProgram gl vs fs)) = []"
  using assms by (auto simp add: createProgram_def split: option.splits if_splits)

lemma createProgram_no_buffer_call:
  "filter is_buffer_call (gl_calls (snd (createProgram gl vs fs))) = []"
  by (simp add: createProgram_def split: option.splits)

lemma shader_error_message_differs: "shader_error_message info \<noteq> shaders_failed_message"
  by (simp add: shader_error_message_def shaders_failed_message_def)

lemma createShader_errors_differ:
  "filter (\<lambda>s. s = shaders_failed_message) (console_errors (snd (createShader gl ty src))) = []"
  by (simp add: createShader_def shader_error_message_differs split: option.splits)

lemma createShader_first_call:
  "hd (gl_calls (snd (createShader gl ty src))) = CreateShader ty"
  by (simp add: createShader_def split: option.splits)

section \<open>Uploads and attribute layout of a frame\<close>

text \<open>
  Claim C8. Startup uploads nothing. Every invocation of a callback that \<open>main\<close> registered
  uploads twice: the position array through the binding of the first buffer and the colour
  array through the binding of the second. At the \<open>vertexAttribPointer\<close> call that follows
  each upload the attribute is enabled, and it is described as 2 components of \<open>FLOAT\<close>
  (4 bytes each), not normalized, stride 0, offset 0 for \<open>a_Pos\<close>, and as 4 components of
  \<open>UNSIGNED_BYTE\<close> (1 byte each), normalized, stride 0, offset 0 for \<open>a_Col\<close>. Tightly
  packed, either array holds exactly 9 vertices.
\<close>

theorem render_uploads_and_describes:
  assumes "RenderFrame gl p pb ps cb cs \<in> set (pending (main m h))"
  shows "filter is_upload (gl_calls (main m h)) = [] \<and>
         filter is_upload (gl_calls (invoke (RenderFrame gl p pb ps cb cs))) =
           [BufferData ARRAY_BUFFER (Float32Array (pos m)) STATIC_DRAW,
            BufferData ARRAY_BUFFER (Uint8Array colors) STATIC_DRAW] \<and>
         attrib_setups [] None None (invoke (RenderFrame gl p pb ps cb cs)) =
           [\<lparr>as_index = attribLocation gl p ''a_Pos'', as_enabled = True,
             as_buffer = createBuffer_result gl 0, as_uploaded = Some (Float32Array (pos m)),
             as_size = 2, as_type = FLOAT, as_normalized = False,
             as_stride = 0, as_offset = 0\<rparr>,
            \<lparr>as_index = attribLocation gl p ''a_Col'', as_enabled = True,
             as_buffer = createBuffer_result gl 1, as_uploaded = Some (Uint8Array colors),
             as_size = 4, as_type = UNSIGNED_BYTE, as_normalized = True,
             as_stride = 0, as_offset = 0\<rparr>] \<and>
         byte_length (Float32Array (pos m)) = 9 * (2 * bytes_per_component FLOAT) \<and>
         byte_length (Uint8Array colors) = 9 * (4 * bytes_per_component UNSIGNED_BYTE)"
proof -
  from assms obtain gl' p' where
    "RenderFrame gl p pb ps cb cs =
       render gl' p' (createBuffer_result gl' 0) (pos m) (createBuffer_result gl' 1) colors"
    using pending_main_render by blast
  then have eq: "pb = createBuffer_result gl 0" "ps = pos m" "cb = createBuffer_result gl 1"
    "cs = colors"
    by (simp_all add: render_def)
  have up: "filter is_upload (gl_calls (invoke (RenderFrame gl p pb ps cb cs))) =
           [BufferData ARRAY_BUFFER (Float32Array (pos m)) STATIC_DRAW,
            BufferData ARRAY_BUFFER (Uint8Array colors) STATIC_DRAW]"
    by (simp add: eq Let_def)
  have st: "attrib_setups [] None None (invoke (RenderFrame gl p pb ps cb cs)) =
           [\<lparr>as_index = attribLocation gl p ''a_Pos'', as_enabled = True,
             as_buffer = createBuffer_result gl 0, as_uploaded = Some (Float32Array (pos m)),
             as_size = 2, as_type = FLOAT, as_normalized = False,
             as_stride = 0, as_offset = 0\<rparr>,
            \<lparr>as_index = attribLocation gl p ''a_Col'', as_enabled = True,
             as_buffer = createBuffer_result gl 1, as_uploaded = Some (Uint8Array colors),
             as_size = 4, as_type = UNSIGNED_BYTE, as_normalized = True,
             as_stride = 0, as_offset = 0\<rparr>]"
    by (simp add: eq Let_def)
  have sz: "byte_length (Float32Array (pos m)) = 9 * (2 * bytes_per_component FLOAT)"
    "byte_length (Uint8Array colors) = 9 * (4 * bytes_per_component UNSIGNED_BYTE)"
    by (simp_all add: length_pos length_colors)
  from up st sz main_no_upload [of m h] show ?thesis by simp
qed

theorem render_uploads_and_describes_witness:
  "pending (main example_modules host_ok) =
     [RenderFrame gl_ok (WebGLProgram 21) (Some (WebGLBuffer 31)) (pos example_modules)
        (Some (WebGLBuffer 32)) colors] \<and>
   filter is_upload (gl_calls (main example_modules host_ok)) = [] \<and>
   filter is_upload (gl_calls (refresh (pending (main example_modules host_ok)))) =
     [BufferData ARRAY_BUFFER (Float32Array (pos example_modules)) STATIC_DRAW,
      BufferData ARRAY_BUFFER (Uint8Array colors) STATIC_DRAW] \<and>
   attrib_setups [] None None (refresh (pending (main example_modules host_ok))) =
     [\<lparr>as_index = 0, as_enabled = True,
       as_buffer = Some (WebGLBuffer 31), as_uploaded = Some (Float32Array (pos example_modules)),
       as_size = 2, as_type = FLOAT, as_normalized = False, as_stride = 0, as_offset = 0\<rparr>,
      \<lparr>as_index = 1, as_enabled = True,
       as_buffer = Some (WebGLBuffer 32), as_uploaded = Some (Uint8Array colors),
       as_size = 4, as_type = UNSIGNED_BYTE, as_normalized = True,
       as_stride = 0, as_offset = 0\<rparr>]"
proof -
  have p: "pending (main example_modules host_ok) =
     [RenderFrame gl_ok (WebGLProgram 21) (Some (WebGLBuffer 31)) (pos example_modules)
        (Some (WebGLBuffer 32)) colors]"
    by (simp add: pending_main_host_ok render_def)
  have m: "RenderFrame gl_ok (WebGLProgram 21) (Some (WebGLBuffer 31)) (pos example_modules)
        (Some (WebGLBuffer 32)) colors \<in> set (pending (main example_modules host_ok))"
    by (simp add: p)
  have r: "refresh (pending (main example_modules host_ok)) =
      invoke (RenderFrame gl_ok (WebGLProgram 21) (Some (WebGLBuffer 31)) (pos example_modules)
        (Some (WebGLBuffer 32)) colors)"
    by (simp add: p refresh_def)
  show ?thesis
    unfolding r using render_uploads_and_describes [OF m] p
    by (simp add: gl_ok_fields)
qed

section \<open>Both shaders are compiled before either result is checked\<close>

text \<open>
  Claim C9. When either stage fails, the trace of \<open>main\<close> still holds the whole of both
  \<open>createShader\<close> calls, the vertex one and then the fragment one, which begins by
  allocating a fragment shader; the check comes after both, and logs the one message that
  stands for the failure of either stage, once.
\<close>

theorem both_shaders_compiled_before_check:
  assumes "querySelector_result h ''#canvas'' = Some cv"
    and "getContext_result cv ''webgl'' = Some gl"
    and "fst (createShader gl VERTEX_SHADER (vertProgram m)) = None \<or>
         fst (createShader gl FRAGMENT_SHADER (fragProgram m)) = None"
  shows "main m h =
           [QuerySelector ''#canvas'', GetContext ''webgl''] @
           snd (createShader gl VERTEX_SHADER (vertProgram m)) @
           snd (createShader gl FRAGMENT_SHADER (fragProgram m)) @
           [ConsoleError shaders_failed_message] \<and>
         hd (gl_calls (snd (createShader gl FRAGMENT_SHADER (fragProgram m)))) =
           CreateShader FRAGMENT_SHADER \<and>
         filter (\<lambda>s. s = shaders_failed_message) (console_errors (main m h)) =
           [shaders_failed_message]"
proof -
  have mn: "main m h =
           [QuerySelector ''#canvas'', GetContext ''webgl''] @
           snd (createShader gl VERTEX_SHADER (vertProgram m)) @
           snd (createShader gl FRAGMENT_SHADER (fragProgram m)) @
           [ConsoleError shaders_failed_message]"
    using assms by (rule main_shaders_failed)
  have "filter (\<lambda>s. s = shaders_failed_message) (console_errors (main m h)) =
           [shaders_failed_message]"
    by (simp add: mn console_errors_append createShader_errors_differ)
  then show ?thesis using mn createShader_first_call [of gl FRAGMENT_SHADER "fragProgram m"]
    by simp
qed

theorem both_shaders_compiled_before_check_witness:
  "main example_modules host_vertex_error =
     [QuerySelector ''#canvas'', GetContext ''webgl'',
      GL (CreateShader VERTEX_SHADER),
      GL (ShaderSource (WebGLShader 11) (vertProgram example_modules)),
      GL (CompileShader (WebGLShader 11)),
      GL (GetShaderParameter (WebGLShader 11) COMPILE_STATUS),
      GL (GetShaderInfoLog (WebGLShader 11)),
      ConsoleError (shader_error_message (Some ''ERROR: 0:3: syntax error'')),
      GL (DeleteShader (WebGLShader 11)),
      GL (CreateShader FRAGMENT_SHADER),
      GL (ShaderSource (WebGLShader 12) (fragProgram example_modules)),
      GL (CompileShader (WebGLShader 12)),
      GL (GetShaderParameter (WebGLShader 12) COMPILE_STATUS),
      ConsoleError shaders_failed_message]"
proof -
  have q: "querySelector_result host_vertex_error ''#canvas'' =
      Some (canvas_with (Some gl_vertex_error))"
    by (simp add: host_vertex_error_def page_fields)
  have c: "getContext_result (canvas_with (Some gl_vertex_error)) ''webgl'' =
      Some gl_vertex_error"
    by (simp add: page_fields)
  have f: "fst (createShader gl_vertex_error VERTEX_SHADER (vertProgram example_modules)) = None \<or>
      fst (createShader gl_vertex_error FRAGMENT_SHADER (fragProgram example_modules)) = None"
    by (simp add: createShader_def gl_vertex_error_fields)
  show ?thesis
    using both_shaders_compiled_before_check [OF q c f]
    by (simp add: createShader_def gl_vertex_error_fields)
qed

section \<open>Buffer allocation is not checked\<close>

text \<open>
  Claim C10. Once the program is linked, whatever the two \<open>createBuffer\<close> calls answer,
  \<open>null\<close> included, startup logs no error and registers the frame callback with those
  answers; the frame then passes them to \<open>bindBuffer\<close> and uploads through the binding.
\<close>

theorem buffer_allocation_unchecked:
  assumes "querySelector_result h ''#canvas'' = Some cv"
    and "getContext_result cv ''webgl'' = Some gl"
    and "fst (createShader gl VERTEX_SHADER (vertProgram m)) = Some vs"
    and "fst (createShader gl FRAGMENT_SHADER (fragProgram m)) = Some fs"
    and "fst (createProgram gl vs fs) = Some p"
  shows "pending (main m h) =
           [render gl p (createBuffer_result gl 0) (pos m) (createBuffer_result gl 1) colors] \<and>
         console_errors (page_events m h (Suc n)) = [] \<and>
         filter is_buffer_call (gl_calls (page_events m h (Suc n))) =
           [CreateBuffer, CreateBuffer,
            BindBuffer ARRAY_BUFFER (createBuffer_result gl 0),
            BufferData ARRAY_BUFFER (Float32Array (pos m)) STATIC_DRAW,
            BindBuffer ARRAY_BUFFER (createBuffer_result gl 1),
            BufferData ARRAY_BUFFER (Uint8Array colors) STATIC_DRAW]"
proof -
  have mn: "main m h =
      [QuerySelector ''#canvas'', GetContext ''webgl''] @
      snd (createShader gl VERTEX_SHADER (vertProgram m)) @
      snd (createShader gl FRAGMENT_SHADER (fragProgram m)) @
      snd (createProgram gl vs fs) @ start_rendering m h cv gl p"
    using assms by (simp add: main_eq build_program_eq)
  have pd: "pending (main m h) =
      [render gl p (createBuffer_result gl 0) (pos m) (createBuffer_result gl 1) colors]"
    by (simp add: mn pending_append pending_createShader pending_createProgram
        pending_start_rendering)
  have pe: "page_events m h (Suc n) =
      main m h @
      invoke (render gl p (createBuffer_result gl 0) (pos m) (createBuffer_result gl 1) colors)"
    by (simp add: page_events_eq pd refresh_def)
  have ce: "console_errors (page_events m h (Suc n)) = []"
    using assms(3,4,5)
    by (simp add: pe mn console_errors_append createShader_ok_no_error
        createProgram_ok_no_error start_rendering_def render_def Let_def)
  have bc: "filter is_buffer_call (gl_calls (page_events m h (Suc n))) =
           [CreateBuffer, CreateBuffer,
            BindBuffer ARRAY_BUFFER (createBuffer_result gl 0),
            BufferData ARRAY_BUFFER (Float32Array (pos m)) STATIC_DRAW,
            BindBuffer ARRAY_BUFFER (createBuffer_result gl 1),
            BufferData ARRAY_BUFFER (Uint8Array colors) STATIC_DRAW]"
    by (simp add: pe mn gl_calls_append createShader_no_buffer_call
        createProgram_no_buffer_call start_rendering_def render_def Let_def)
  from pd ce bc show ?thesis by simp
qed

theorem buffer_allocation_unchecked_witness:
  "createBuffer_result gl_no_buffers 0 = None \<and> createBuffer_result gl_no_buffers 1 = None \<and>
   console_errors (page_events example_modules host_no_buffers (Suc 0)) = [] \<and>
   filter is_buffer_call (gl_calls (page_events example_modules host_no_buffers (Suc 0))) =
     [CreateBuffer, CreateBuffer,
      BindBuffer ARRAY_BUFFER None,
      BufferData ARRAY_BUFFER (Float32Array (pos example_modules)) STATIC_DRAW,
      BindBuffer ARRAY_BUFFER None,
      BufferData ARRAY_BUFFER (Uint8Array colors) STATIC_DRAW]"
proof -
  have q: "querySelector_result host_no_buffers ''#canvas'' =
      Some (canvas_with (Some gl_no_buffers))"
    by (simp add: host_no_buffers_def page_fields)
  have c: "getContext_result (canvas_with (Some gl_no_buffers)) ''webgl'' = Some gl_no_buffers"
    by (simp add: page_fields)
  have v: "fst (createShader gl_no_buffers VERTEX_SHADER (vertProgram example_modules)) =
      Some (WebGLShader 11)"
    by (simp add: createShader_def gl_no_buffers_fields)
  have f: "fst (createShader gl_no_buffers FRAGMENT_SHADER (fragProgram example_modules)) =
      Some (WebGLShader 12)"
    by (simp add: createShader_def gl_no_buffers_fields)
  have l: "fst (createProgram gl_no_buffers (WebGLShader 11) (WebGLShader 12)) =
      Some (WebGLProgram 21)"
    by (simp add: createProgram_def gl_no_buffers_fields)
  show ?thesis
    using buffer_allocation_unchecked [OF q c v f l, of 0]
    by (simp add: gl_no_buffers_fields)
qed

end
